theory Spec2Isabelle
  imports Main "HOL-Library.Word"
begin

section \<open>Engine values\<close>

text \<open>
  The script engine is an external collaborator of quickjs.hpp. Its values are modelled by
  the constructors the binding layer uses: the constants \<open>JS_UNDEFINED\<close>, \<open>JS_NULL\<close>,
  \<open>JS_EXCEPTION\<close> (the marker a failed engine call returns), booleans, the results of
  \<open>JS_NewInt32\<close>, \<open>JS_NewInt64\<close>, \<open>JS_NewFloat64\<close> (the IEEE bit pattern, only passed
  through) and \<open>JS_NewStringLen\<close>, ordinary objects (identified by their heap identity),
  Error-class objects (likewise) and the object \<open>JS_NewUncatchableError\<close> of
  patches/0002 creates (an Error whose uncatchable flag is set).
\<close>

datatype JSValue =
    JS_UNDEFINED
  | JS_NULL
  | JS_EXCEPTION
  | JS_Bool bool
  | JS_NewInt32 "32 word"
  | JS_NewInt64 "64 word"
  | JS_NewFloat64 "64 word"
  | JS_NewString string
  | JS_Object nat
  | JS_ErrorObject nat
  | JS_NewUncatchableError

definition JS_IsException :: "JSValue \<Rightarrow> bool" where
  "JS_IsException v = (v = JS_EXCEPTION)"

definition JS_IsUndefined :: "JSValue \<Rightarrow> bool" where
  "JS_IsUndefined v = (v = JS_UNDEFINED)"

definition JS_IsNull :: "JSValue \<Rightarrow> bool" where
  "JS_IsNull v = (v = JS_NULL)"

fun JS_IsError :: "JSValue \<Rightarrow> bool" where
  "JS_IsError (JS_ErrorObject i) = True"
| "JS_IsError JS_NewUncatchableError = True"
| "JS_IsError v = False"

fun JS_IsObject :: "JSValue \<Rightarrow> bool" where
  "JS_IsObject (JS_Object i) = True"
| "JS_IsObject (JS_ErrorObject i) = True"
| "JS_IsObject JS_NewUncatchableError = True"
| "JS_IsObject v = False"

fun JS_IsNumber :: "JSValue \<Rightarrow> bool" where
  "JS_IsNumber (JS_NewInt32 w) = True"
| "JS_IsNumber (JS_NewInt64 w) = True"
| "JS_IsNumber (JS_NewFloat64 w) = True"
| "JS_IsNumber v = False"

fun JS_IsString :: "JSValue \<Rightarrow> bool" where
  "JS_IsString (JS_NewString s) = True"
| "JS_IsString v = False"

fun JS_IsBool :: "JSValue \<Rightarrow> bool" where
  "JS_IsBool (JS_Bool b) = True"
| "JS_IsBool v = False"

text \<open>\<open>JS_DupValue\<close> takes one more reference to the same engine value and returns it.\<close>

definition JS_DupValue :: "JSValue \<Rightarrow> JSValue" where
  "JS_DupValue v = v"

text \<open>
  The number a script observes in an engine integer: the payload of \<open>JS_NewInt32\<close> is an
  \<open>int32_t\<close>, read in two's complement.
\<close>

fun js_int_of :: "JSValue \<Rightarrow> int option" where
  "js_int_of (JS_NewInt32 w) = Some (sint w)"
| "js_int_of (JS_NewInt64 w) = Some (sint w)"
| "js_int_of v = None"


section \<open>class value\<close>

text \<open>
  A host-side Value: the engine context pointer \<open>ctx_\<close> (null when the Value is invalid)
  and the engine value \<open>val_\<close>. The tracking link \<open>owner_\<close> is added where the lifetime of
  Values is modelled.
\<close>

record Value =
  v_ctx :: "nat option"
  v_val :: JSValue

text \<open>A default-constructed Value: no context, and \<open>val_{0}\<close>, the zero engine value.\<close>

definition value_default :: Value where
  "value_default = \<lparr>v_ctx = None, v_val = JS_NewInt32 0\<rparr>"

definition valid :: "'a Value_scheme \<Rightarrow> bool" where
  "valid v = (v_ctx v \<noteq> None)"

text \<open>The native exception types that cross the boundary.\<close>

datatype native_exc =
    exception string
  | invalid_context
  | value_exception_msg string
  | value_exception Value
  | value_error string string
  | throw_exception Value
  | foreign_exception string string

text \<open>\<open>what()\<close> of the library's exception types; a foreign exception has none.\<close>

fun what :: "native_exc \<Rightarrow> string" where
  "what (exception m) = m"
| "what invalid_context = ''invalid context''"
| "what (value_exception_msg m) = m"
| "what (value_exception v) = ''''"
| "what (value_error m st) = m"
| "what (throw_exception v) = ''thrown exception''"
| "what (foreign_exception ty p) = ''''"

definition throw_value_exception :: "string \<Rightarrow> native_exc + 'a" where
  "throw_value_exception msg = Inl (value_exception_msg msg)"

definition validate :: "'a Value_scheme \<Rightarrow> native_exc + unit" where
  "validate v = (if \<not> valid v then throw_value_exception ''no context'' else Inr ())"

text \<open>\<open>explicit value(JSContext* ctx, JSValue val, bool dup)\<close> with a non-null \<open>ctx\<close>.\<close>

definition value_of :: "nat \<Rightarrow> JSValue \<Rightarrow> bool \<Rightarrow> Value" where
  "value_of ctx val dup = \<lparr>v_ctx = Some ctx, v_val = (if dup then JS_DupValue val else val)\<rparr>"

definition undefined_value :: "nat \<Rightarrow> Value" where
  "undefined_value ctx = value_of ctx JS_UNDEFINED False"

section \<open>detail::jsvalue_list\<close>

text \<open>
  The native argument types a variadic call site accepts (the overloads of
  \<open>new_jsvalue\<close>); the overloads that wrap a native callable allocate a closure object and
  are not part of this model.
\<close>

datatype native_arg =
    AValue Value
  | ACStr string
  | AString string
  | ABool bool
  | AInt32 "32 word"
  | AUInt32 "32 word"
  | AInt64 "64 word"
  | ADouble "64 word"

text \<open>\<open>static_cast<int32_t>(val)\<close> keeps the 32 bits; only their reading changes.\<close>

definition static_cast_int32 :: "32 word \<Rightarrow> 32 word" where
  "static_cast_int32 w = w"

fun new_jsvalue :: "native_arg \<Rightarrow> JSValue" where
  "new_jsvalue (AValue v) = (if valid v then JS_DupValue (v_val v) else JS_UNDEFINED)"
| "new_jsvalue (ACStr s) = JS_NewString s"
| "new_jsvalue (AString s) = JS_NewString s"
| "new_jsvalue (ABool b) = JS_Bool b"
| "new_jsvalue (AInt32 w) = JS_NewInt32 w"
| "new_jsvalue (AUInt32 w) = JS_NewInt32 (static_cast_int32 w)"
| "new_jsvalue (AInt64 w) = JS_NewInt64 w"
| "new_jsvalue (ADouble w) = JS_NewFloat64 w"

section \<open>class args\<close>

text \<open>
  The argument view of one native invocation: the \<open>std::vector<value>\<close> base and the
  receiver \<open>this_\<close>. The constructor sizes the vector to the larger of the declared arity
  \<open>N\<close> and \<open>argc\<close> (default-constructed Values), then runs its two loops: the first
  assigns a duplicate of each engine argument, the second assigns "undefined" up to \<open>N\<close>.
\<close>

record Args =
  a_vec :: "Value list"
  a_this :: Value

definition args :: "nat \<Rightarrow> nat \<Rightarrow> JSValue \<Rightarrow> nat \<Rightarrow> JSValue list \<Rightarrow> Args" where
  "args ctx N this_obj argc argv =
     (let vec0 = replicate (if N > argc then N else argc) value_default;
          vec1 = fold (\<lambda>i vec. vec[i := value_of ctx (argv ! i) True]) [0..<argc] vec0;
          vec2 = fold (\<lambda>i vec. vec[i := undefined_value ctx]) [argc..<N] vec1
      in \<lparr>a_vec = vec2, a_this = value_of ctx this_obj True\<rparr>)"

text \<open>
  \<open>values::convert\<close> is the adaptor that holds a reference to one entry and converts it to
  the declared parameter type on use. \<open>handle_closure_expand_helper\<close> calls the callable
  with \<open>convert(a[Is])...\<close> for \<open>Is = 0 .. N-1\<close>; the variant for callables whose first
  parameter is the argument view passes the view first.
\<close>

datatype convert = convert Value

definition handle_closure_expand_helper :: "nat \<Rightarrow> Args \<Rightarrow> convert list" where
  "handle_closure_expand_helper N a = map (\<lambda>i. convert (a_vec a ! i)) [0..<N]"

definition handle_closure_expand_with_args_helper :: "nat \<Rightarrow> Args \<Rightarrow> Args \<times> convert list" where
  "handle_closure_expand_with_args_helper N a = (a, map (\<lambda>i. convert (a_vec a ! i)) [0..<N])"

section \<open>Engine interface\<close>

text \<open>
  The engine functions whose results the binding layer only passes on are parameters of
  the model: string conversion (\<open>JS_ToCString\<close>, null on failure), property read, the
  global object, the function predicate, the numeric and boolean conversions (negative
  return code on failure) and the opaque payload of an object for a class id.
\<close>

record engine =
  JS_ToCString :: "JSValue \<Rightarrow> string option"
  JS_GetPropertyStr :: "JSValue \<Rightarrow> string \<Rightarrow> JSValue"
  JS_GetGlobalObject :: JSValue
  JS_IsFunction :: "JSValue \<Rightarrow> bool"
  JS_ToBool :: "JSValue \<Rightarrow> bool option"
  JS_ToInt32 :: "JSValue \<Rightarrow> 32 word option"
  JS_GetOpaque :: "JSValue \<Rightarrow> nat \<Rightarrow> nat option"

section \<open>class context\<close>

text \<open>
  A host-side Context: the owned engine context \<open>ctx_\<close>, the owning runtime \<open>owner_\<close>, the
  call level \<open>clevel_\<close>, the addresses of the tracked Values \<open>values_\<close> (head first),
  the pending exception token \<open>excpt_\<close> and the class table \<open>classes_\<close>
  (class id to constructor and prototype).
\<close>

record Context =
  c_ctx :: "nat option"
  c_owner :: "nat option"
  c_clevel :: nat
  c_values :: "nat list"
  c_excpt :: "native_exc option"
  c_classes :: "nat \<rightharpoonup> JSValue \<times> JSValue"

definition context_valid :: "'a Context_scheme \<Rightarrow> bool" where
  "context_valid c = (c_owner c \<noteq> None \<and> c_ctx c \<noteq> None)"

definition context_validate :: "'a Context_scheme \<Rightarrow> native_exc + unit" where
  "context_validate c = (if \<not> context_valid c then Inl invalid_context else Inr ())"

definition store_exception :: "native_exc \<Rightarrow> 'a Context_scheme \<Rightarrow> 'a Context_scheme" where
  "store_exception e c = c\<lparr>c_excpt := Some e\<rparr>"

definition pop_exception :: "'a Context_scheme \<Rightarrow> native_exc option \<times> 'a Context_scheme" where
  "pop_exception c = (c_excpt c, c\<lparr>c_excpt := None\<rparr>)"

definition get_class_info :: "'a Context_scheme \<Rightarrow> nat \<Rightarrow> native_exc + (JSValue \<times> JSValue)" where
  "get_class_info c cid =
     (case c_classes c cid of
        None \<Rightarrow> Inl (exception ''class not registered'')
      | Some info \<Rightarrow> Inr info)"

section \<open>Exception bridge\<close>

text \<open>
  The bridge works on a Context together with the engine state it touches: the engine's
  pending exception (\<open>JS_NULL\<close> when there is none) and, for the properties below, the
  list of values that script \<open>catch\<close> clauses have received.
\<close>

record machine = Context +
  current_exception :: JSValue
  caught :: "JSValue list"

definition JS_Throw :: "JSValue \<Rightarrow> machine \<Rightarrow> JSValue \<times> machine" where
  "JS_Throw obj m = (JS_EXCEPTION, m\<lparr>current_exception := obj\<rparr>)"

definition JS_GetException :: "machine \<Rightarrow> JSValue \<times> machine" where
  "JS_GetException m = (current_exception m, m\<lparr>current_exception := JS_NULL\<rparr>)"

definition JS_IsUncatchableError :: "JSValue \<Rightarrow> bool" where
  "JS_IsUncatchableError v = (v = JS_NewUncatchableError)"

text \<open>\<open>value::steal\<close>: the raw engine value, or the failure of \<open>validate\<close>.\<close>

definition steal :: "Value \<Rightarrow> native_exc + JSValue" where
  "steal v = (case validate v of Inl e \<Rightarrow> Inl e | Inr u \<Rightarrow> Inr (v_val v))"

text \<open>\<open>value::as_cstring\<close> followed by \<open>cstring::str\<close> on a valid Value.\<close>

definition cstring_str :: "engine \<Rightarrow> JSValue \<Rightarrow> string" where
  "cstring_str E v = (case JS_ToCString E v of None \<Rightarrow> [] | Some s \<Rightarrow> s)"

text \<open>
  \<open>value::do_throw(value exval)\<close>, called on the Value \<open>this\<close> whose operation failed. The
  Error test reads \<open>val_\<close> of \<open>this\<close>; the thrown value is \<open>exval\<close>.
\<close>

definition do_throw :: "engine \<Rightarrow> Value \<Rightarrow> Value \<Rightarrow> machine \<Rightarrow> native_exc" where
  "do_throw E this exval m =
     (if JS_IsError (v_val this) then
        (let stack = JS_GetPropertyStr E (v_val exval) ''stack'' in
         value_error (cstring_str E (v_val exval))
           (if \<not> JS_IsUndefined stack then cstring_str E stack else []))
      else if c_clevel m > 1 then throw_exception exval
      else value_exception exval)"

definition handle_pending_exception :: "Value \<Rightarrow> machine \<Rightarrow> (native_exc + unit) \<times> machine" where
  "handle_pending_exception this m =
     (case validate this of
        Inl e \<Rightarrow> (Inl e, m)
      | Inr u \<Rightarrow>
          (case pop_exception m of
             (Some excpt, m') \<Rightarrow> (Inl excpt, m')
           | (None, m') \<Rightarrow> (Inr (), m')))"

definition check_throw :: "engine \<Rightarrow> Value \<Rightarrow> bool \<Rightarrow> machine \<Rightarrow> (native_exc + unit) \<times> machine" where
  "check_throw E this check_exceptions m =
     (case v_ctx this of
        None \<Rightarrow> (Inr (), m)
      | Some ctx \<Rightarrow>
          (case (if check_exceptions then handle_pending_exception this m else (Inr (), m)) of
             (Inl e, m1) \<Rightarrow> (Inl e, m1)
           | (Inr u, m1) \<Rightarrow>
               if JS_IsException (v_val this) then
                 (case JS_GetException m1 of
                    (ex, m2) \<Rightarrow> (Inl (do_throw E this (value_of ctx ex False) m2), m2))
               else (Inr (), m1)))"

text \<open>\<open>explicit value(JSContext* ctx, const value& other)\<close> with a non-null \<open>ctx\<close>.\<close>

definition value_copy :: "nat \<Rightarrow> Value \<Rightarrow> Value" where
  "value_copy ctx other =
     (if v_ctx other \<noteq> None then \<lparr>v_ctx = Some ctx, v_val = JS_DupValue (v_val other)\<rparr>
      else \<lparr>v_ctx = None, v_val = JS_NewInt32 0\<rparr>)"

text \<open>
  \<open>closures_common::handle_closure_expand\<close> (and its \<open>_with_args\<close> twin, whose body is the
  same). The callable is given by what it does on the machine: it returns a Value or
  throws. The result is the engine value handed back to the engine; \<open>Inl\<close> is a native
  exception that leaves the handler (only \<open>steal\<close> inside the first catch clause can
  raise one).
\<close>

definition handle_closure_expand ::
  "engine \<Rightarrow> (machine \<Rightarrow> (native_exc + Value) \<times> machine) \<Rightarrow> nat \<Rightarrow> machine
    \<Rightarrow> (native_exc + JSValue) \<times> machine" where
  "handle_closure_expand E f ctx m =
     (let tried =
        (case f m of
           (Inl e, m1) \<Rightarrow> (Inl e, m1)
         | (Inr r, m1) \<Rightarrow>
             (let ret = value_copy ctx r in
              case check_throw E ret True m1 of
                (Inl e, m2) \<Rightarrow> (Inl e, m2)
              | (Inr u, m2) \<Rightarrow> (Inr (if valid ret then v_val ret else JS_UNDEFINED), m2)))
      in case tried of
           (Inr jsv, m') \<Rightarrow> (Inr jsv, m')
         | (Inl (throw_exception v), m') \<Rightarrow>
             (case steal v of
                Inl e \<Rightarrow> (Inl e, m')
              | Inr jsv \<Rightarrow> (case JS_Throw jsv m' of (r, m'') \<Rightarrow> (Inr r, m'')))
         | (Inl e, m') \<Rightarrow>
             (case JS_Throw JS_NewUncatchableError (store_exception e m') of
                (r, m'') \<Rightarrow> (Inr r, m'')))"

text \<open>
  \<open>functions::call_common_args\<close>: the scoped \<open>call_level\<close> increments \<open>clevel_\<close> for the
  duration of the call and decrements it on every way out. \<open>JS_Call\<close> is the engine call
  (function, receiver, arguments).
\<close>

definition call_level_exit :: "machine \<Rightarrow> machine" where
  "call_level_exit m = m\<lparr>c_clevel := c_clevel m - 1\<rparr>"

definition call_common_args_finish ::
  "engine \<Rightarrow> nat \<Rightarrow> (native_exc + JSValue) \<times> machine \<Rightarrow> (native_exc + Value) \<times> machine" where
  "call_common_args_finish E ctx called =
     (case called of
        (Inl e, m2) \<Rightarrow> (Inl e, call_level_exit m2)
      | (Inr r, m2) \<Rightarrow>
          (let ret = value_of ctx r False in
           case check_throw E ret True m2 of
             (Inl e, m3) \<Rightarrow> (Inl e, call_level_exit m3)
           | (Inr u, m3) \<Rightarrow> (Inr ret, call_level_exit m3)))"

definition call_common_args ::
  "engine \<Rightarrow> (JSValue \<Rightarrow> JSValue \<Rightarrow> JSValue list \<Rightarrow> machine \<Rightarrow> (native_exc + JSValue) \<times> machine)
    \<Rightarrow> Value \<Rightarrow> nat \<Rightarrow> Value \<Rightarrow> JSValue list \<Rightarrow> machine \<Rightarrow> (native_exc + Value) \<times> machine" where
  "call_common_args E JS_Call func ctx thisObj avals m =
     call_common_args_finish E ctx
       (JS_Call (v_val func) (if valid thisObj then v_val thisObj else JS_UNDEFINED) avals
          (m\<lparr>c_clevel := c_clevel m + 1\<rparr>))"

definition call_common ::
  "engine \<Rightarrow> (JSValue \<Rightarrow> JSValue \<Rightarrow> JSValue list \<Rightarrow> machine \<Rightarrow> (native_exc + JSValue) \<times> machine)
    \<Rightarrow> Value \<Rightarrow> nat \<Rightarrow> Value \<Rightarrow> native_arg list \<Rightarrow> machine \<Rightarrow> (native_exc + Value) \<times> machine" where
  "call_common E JS_Call func ctx thisObj a m =
     call_common_args E JS_Call func ctx thisObj (map new_jsvalue a) m"

text \<open>\<open>value::operator()\<close>: the receiver passed on is \<open>value::undefined(ctx_)\<close>.\<close>

definition value_call ::
  "engine \<Rightarrow> (JSValue \<Rightarrow> JSValue \<Rightarrow> JSValue list \<Rightarrow> machine \<Rightarrow> (native_exc + JSValue) \<times> machine)
    \<Rightarrow> Value \<Rightarrow> native_arg list \<Rightarrow> machine \<Rightarrow> (native_exc + Value) \<times> machine" where
  "value_call E JS_Call this a m =
     (case v_ctx this of
        None \<Rightarrow> (throw_value_exception ''no context'', m)
      | Some ctx \<Rightarrow> call_common E JS_Call this ctx (undefined_value ctx) a m)"

section \<open>Nested native and script frames\<close>

text \<open>
  Modelled from the spec: the engine's \<open>try/catch\<close>. A script frame that calls a function
  inside \<open>try\<close> receives a failed call's pending exception in its \<open>catch\<close> clause unless
  the exception is marked uncatchable (glossary, "Uncatchable error"; patches/0002); the
  clause then rethrows the value or returns one. A native exception that left a handler
  passes through script frames untouched.
\<close>

datatype catch_action = Rethrow | Return JSValue

definition script_try ::
  "(machine \<Rightarrow> (native_exc + JSValue) \<times> machine) \<Rightarrow> catch_action \<Rightarrow> machine
    \<Rightarrow> (native_exc + JSValue) \<times> machine" where
  "script_try callee act m =
     (case callee m of
        (Inl e, m1) \<Rightarrow> (Inl e, m1)
      | (Inr r, m1) \<Rightarrow>
          if JS_IsException r \<and> \<not> JS_IsUncatchableError (current_exception m1) then
            (let ex = current_exception m1;
                 m2 = m1\<lparr>current_exception := JS_NULL, caught := caught m1 @ [ex]\<rparr>
             in case act of
                  Rethrow \<Rightarrow> (case JS_Throw ex m2 of (r', m3) \<Rightarrow> (Inr r', m3))
                | Return v \<Rightarrow> (Inr v, m2))
          else (Inr r, m1))"

text \<open>
  A native callable returns a Value, throws, or returns the result of calling a script
  function through \<open>value::operator()\<close>. A script function returns a value, throws one, or
  returns the result of calling a native closure, outside or inside \<open>try\<close>. The function
  object and the arguments of a call do not take part in exception routing, so a call is
  given by the body it runs.
\<close>

datatype native_body =
    NReturn Value
  | NThrow native_exc
  | NCall script_body
and script_body =
    SReturn JSValue
  | SThrow JSValue
  | SCall native_body
  | STry native_body catch_action

primrec run_native :: "engine \<Rightarrow> nat \<Rightarrow> native_body \<Rightarrow> machine \<Rightarrow> (native_exc + Value) \<times> machine"
  and run_script :: "engine \<Rightarrow> nat \<Rightarrow> script_body \<Rightarrow> machine \<Rightarrow> (native_exc + JSValue) \<times> machine"
where
  "run_native E ctx (NReturn v) = (\<lambda>m. (Inr v, m))"
| "run_native E ctx (NThrow e) = (\<lambda>m. (Inl e, m))"
| "run_native E ctx (NCall sb) =
     value_call E (\<lambda>f t a. run_script E ctx sb) (value_of ctx (JS_Object 0) False) []"
| "run_script E ctx (SReturn v) = (\<lambda>m. (Inr v, m))"
| "run_script E ctx (SThrow v) = (\<lambda>m. case JS_Throw v m of (r, m') \<Rightarrow> (Inr r, m'))"
| "run_script E ctx (SCall nb) = handle_closure_expand E (run_native E ctx nb) ctx"
| "run_script E ctx (STry nb act) =
     script_try (handle_closure_expand E (run_native E ctx nb) ctx) act"

text \<open>
  \<open>nested f fs nb\<close>: the script function called by the outermost native caller, with one
  script frame per entry of \<open>f # fs\<close> (outermost first; \<open>Some act\<close> is a frame with
  \<open>try/catch\<close>), each calling a native closure that calls the next script frame; the
  innermost closure runs \<open>nb\<close>.
\<close>

fun frame :: "catch_action option \<Rightarrow> native_body \<Rightarrow> script_body" where
  "frame None nb = SCall nb"
| "frame (Some act) nb = STry nb act"

fun nested :: "catch_action option \<Rightarrow> catch_action option list \<Rightarrow> native_body \<Rightarrow> script_body" where
  "nested f [] nb = frame f nb"
| "nested f (g # gs) nb = frame f (NCall (nested g gs nb))"

text \<open>The exceptions the first catch clause of a handler takes (\<open>catch (const throw_exception&)\<close>).\<close>

fun is_throw_exception :: "native_exc \<Rightarrow> bool" where
  "is_throw_exception (throw_exception v) = True"
| "is_throw_exception e = False"



text \<open>
  \<open>context::eval\<close>: the evaluation itself is the engine's (\<open>JS_Eval\<close>); the call level is
  not touched.
\<close>

definition context_eval ::
  "engine \<Rightarrow> (machine \<Rightarrow> (native_exc + JSValue) \<times> machine) \<Rightarrow> machine
    \<Rightarrow> (native_exc + Value) \<times> machine" where
  "context_eval E JS_Eval m =
     (case context_validate m of
        Inl e \<Rightarrow> (Inl e, m)
      | Inr u \<Rightarrow>
          (case c_ctx m of
             None \<Rightarrow> (Inl invalid_context, m)
           | Some ctx \<Rightarrow>
               (case JS_Eval m of
                  (Inl e, m1) \<Rightarrow> (Inl e, m1)
                | (Inr r, m1) \<Rightarrow>
                    (let ret = value_of ctx r False in
                     case check_throw E ret True m1 of
                       (Inl e, m2) \<Rightarrow> (Inl e, m2)
                     | (Inr u, m2) \<Rightarrow> (Inr ret, m2)))))"

definition engine0 :: engine where
  "engine0 = \<lparr>JS_ToCString = (\<lambda>v. case v of JS_NewString s \<Rightarrow> Some s | _ \<Rightarrow> None),
     JS_GetPropertyStr = (\<lambda>v n. JS_UNDEFINED), JS_GetGlobalObject = JS_Object 1,
     JS_IsFunction = (\<lambda>v. False), JS_ToBool = (\<lambda>v. None), JS_ToInt32 = (\<lambda>v. None),
     JS_GetOpaque = (\<lambda>v c. None)\<rparr>"

definition machine0 :: machine where
  "machine0 = \<lparr>c_ctx = Some 0, c_owner = Some 0, c_clevel = 0, c_values = [], c_excpt = None,
     c_classes = Map.empty, current_exception = JS_NULL, caught = []\<rparr>"

section \<open>Methods of class value\<close>

text \<open>
  The type predicates and the throwing conversions call \<open>validate\<close> first. The
  non-throwing conversions test \<open>valid()\<close> themselves and report failure through their
  result: the success flag with the value written to the output parameter (zeroed on
  failure), or for \<open>as_string\<close> the string written on success only.
\<close>

definition is_null :: "Value \<Rightarrow> native_exc + bool" where
  "is_null v = (case validate v of Inl e \<Rightarrow> Inl e | Inr u \<Rightarrow> Inr (JS_IsNull (v_val v)))"

definition is_undefined :: "Value \<Rightarrow> native_exc + bool" where
  "is_undefined v = (case validate v of Inl e \<Rightarrow> Inl e | Inr u \<Rightarrow> Inr (JS_IsUndefined (v_val v)))"

definition is_exception :: "Value \<Rightarrow> native_exc + bool" where
  "is_exception v = (case validate v of Inl e \<Rightarrow> Inl e | Inr u \<Rightarrow> Inr (JS_IsError (v_val v)))"

definition is_function :: "engine \<Rightarrow> Value \<Rightarrow> native_exc + bool" where
  "is_function E v = (case validate v of Inl e \<Rightarrow> Inl e | Inr u \<Rightarrow> Inr (JS_IsFunction E (v_val v)))"

definition is_number :: "Value \<Rightarrow> native_exc + bool" where
  "is_number v = (case validate v of Inl e \<Rightarrow> Inl e | Inr u \<Rightarrow> Inr (JS_IsNumber (v_val v)))"

definition is_object :: "Value \<Rightarrow> native_exc + bool" where
  "is_object v = (case validate v of Inl e \<Rightarrow> Inl e | Inr u \<Rightarrow> Inr (JS_IsObject (v_val v)))"

definition is_string :: "Value \<Rightarrow> native_exc + bool" where
  "is_string v = (case validate v of Inl e \<Rightarrow> Inl e | Inr u \<Rightarrow> Inr (JS_IsString (v_val v)))"

definition is_bool :: "Value \<Rightarrow> native_exc + bool" where
  "is_bool v = (case validate v of Inl e \<Rightarrow> Inl e | Inr u \<Rightarrow> Inr (JS_IsBool (v_val v)))"

definition as_bool_flag :: "engine \<Rightarrow> Value \<Rightarrow> bool \<times> bool" where
  "as_bool_flag E v =
     (if \<not> valid v then (False, False)
      else case JS_ToBool E (v_val v) of None \<Rightarrow> (False, False) | Some b \<Rightarrow> (True, b))"

definition as_bool :: "engine \<Rightarrow> Value \<Rightarrow> native_exc + bool" where
  "as_bool E v =
     (case validate v of
        Inl e \<Rightarrow> Inl e
      | Inr u \<Rightarrow>
          (case as_bool_flag E v of
             (False, r) \<Rightarrow> throw_value_exception ''not a int32 value''
           | (True, r) \<Rightarrow> Inr r))"

definition as_int32_flag :: "engine \<Rightarrow> Value \<Rightarrow> bool \<times> 32 word" where
  "as_int32_flag E v =
     (if \<not> valid v then (False, 0)
      else case JS_ToInt32 E (v_val v) of None \<Rightarrow> (False, 0) | Some w \<Rightarrow> (True, w))"

definition as_int32 :: "engine \<Rightarrow> Value \<Rightarrow> native_exc + 32 word" where
  "as_int32 E v =
     (case validate v of
        Inl e \<Rightarrow> Inl e
      | Inr u \<Rightarrow>
          (case as_int32_flag E v of
             (False, r) \<Rightarrow> throw_value_exception ''not a int32 value''
           | (True, r) \<Rightarrow> Inr r))"

definition as_cstring :: "engine \<Rightarrow> Value \<Rightarrow> native_exc + string option" where
  "as_cstring E v = (case validate v of Inl e \<Rightarrow> Inl e | Inr u \<Rightarrow> Inr (JS_ToCString E (v_val v)))"

definition as_string_flag :: "engine \<Rightarrow> Value \<Rightarrow> string option" where
  "as_string_flag E v =
     (if valid v then (case as_cstring E v of Inr (Some s) \<Rightarrow> Some s | _ \<Rightarrow> None) else None)"

definition as_string :: "engine \<Rightarrow> Value \<Rightarrow> native_exc + string" where
  "as_string E v =
     (case validate v of
        Inl e \<Rightarrow> Inl e
      | Inr u \<Rightarrow>
          (case as_string_flag E v of
             None \<Rightarrow> throw_value_exception ''not a string value''
           | Some s \<Rightarrow> Inr s))"

definition get_property :: "engine \<Rightarrow> Value \<Rightarrow> string \<Rightarrow> native_exc + Value" where
  "get_property E v name =
     (case v_ctx v of
        None \<Rightarrow> throw_value_exception ''no context''
      | Some ctx \<Rightarrow> Inr (value_of ctx (JS_GetPropertyStr E (v_val v) name) False))"

section \<open>Methods of class context\<close>

definition get_global_object :: "engine \<Rightarrow> machine \<Rightarrow> native_exc + Value" where
  "get_global_object E m =
     (case context_validate m of
        Inl e \<Rightarrow> Inl e
      | Inr u \<Rightarrow>
          (case c_ctx m of
             None \<Rightarrow> Inl invalid_context
           | Some ctx \<Rightarrow> Inr (value_of ctx (JS_GetGlobalObject E) False)))"

text \<open>
  \<open>context::call_global\<close>: \<open>get_global_object().get_property(name)(value::undefined(ctx),
  args...)\<close>.
\<close>

definition call_global ::
  "engine \<Rightarrow> (JSValue \<Rightarrow> JSValue \<Rightarrow> JSValue list \<Rightarrow> machine \<Rightarrow> (native_exc + JSValue) \<times> machine)
    \<Rightarrow> string \<Rightarrow> native_arg list \<Rightarrow> machine \<Rightarrow> (native_exc + Value) \<times> machine" where
  "call_global E JS_Call name a m =
     (case context_validate m of
        Inl e \<Rightarrow> (Inl e, m)
      | Inr u \<Rightarrow>
          (case c_ctx m of
             None \<Rightarrow> (Inl invalid_context, m)
           | Some ctx \<Rightarrow>
               (case get_global_object E m of
                  Inl e \<Rightarrow> (Inl e, m)
                | Inr g \<Rightarrow>
                    (case get_property E g name of
                       Inl e \<Rightarrow> (Inl e, m)
                     | Inr fn \<Rightarrow> value_call E JS_Call fn (AValue (undefined_value ctx) # a) m))))"

text \<open>
  \<open>context::make_object\<close>. The out parameter \<open>inst\<close> is modelled by its content before
  the call and, next to the result, its content afterwards; a raised exception leaves it
  as it was. \<open>JS_CallConstructor\<close> is the engine call of the registered constructor.
\<close>

definition make_object ::
  "engine \<Rightarrow> (JSValue \<Rightarrow> JSValue list \<Rightarrow> machine \<Rightarrow> (native_exc + JSValue) \<times> machine)
    \<Rightarrow> nat \<Rightarrow> Value list \<Rightarrow> nat option \<Rightarrow> machine
    \<Rightarrow> ((native_exc + Value) \<times> nat option) \<times> machine" where
  "make_object E JS_CallConstructor cid a inst m =
     (case context_validate m of
        Inl e \<Rightarrow> ((Inl e, inst), m)
      | Inr u \<Rightarrow>
          (case get_class_info m cid of
             Inl e \<Rightarrow> ((Inl e, inst), m)
           | Inr info \<Rightarrow>
               (case c_ctx m of
                  None \<Rightarrow> ((Inl invalid_context, inst), m)
                | Some ctx \<Rightarrow>
                    (case JS_CallConstructor (fst info) (map v_val a) m of
                       (Inl e, m1) \<Rightarrow> ((Inl e, inst), m1)
                     | (Inr r, m1) \<Rightarrow>
                         (let ret = value_of ctx r False in
                          case check_throw E ret True m1 of
                            (Inl e, m2) \<Rightarrow> ((Inl e, inst), m2)
                          | (Inr u, m2) \<Rightarrow>
                              if valid ret \<and> \<not> JS_IsError (v_val ret)
                              then ((Inr ret, JS_GetOpaque E (v_val ret) cid), m2)
                              else ((Inr ret, None), m2))))))"

text \<open>A Context with one registered class, id 3.\<close>

definition machine1 :: machine where
  "machine1 = machine0\<lparr>c_classes := [3 \<mapsto> (JS_Object 10, JS_Object 11)]\<rparr>"

text \<open>
  A registered constructor whose native side throws \<open>throw_exception\<close> with the string
  "the exception" (\<open>classes::ctor\<close> has the catch clauses of the closure handler).
\<close>

definition throwing_constructor ::
  "JSValue \<Rightarrow> JSValue list \<Rightarrow> machine \<Rightarrow> (native_exc + JSValue) \<times> machine" where
  "throwing_constructor c a =
     run_script engine0 0
       (SCall (NThrow (throw_exception (value_of 0 (JS_NewString ''the exception'') False))))"

text \<open>
  \<open>value::set_property(name, value val)\<close>: after \<open>validate\<close> the argument is stolen and
  handed to the engine; a negative return code makes \<open>do_throw\<close> raise what
  \<open>JS_GetException\<close> returns. \<open>JS_SetPropertyStr\<close> is the engine call (object, name,
  value).
\<close>

definition set_property ::
  "engine \<Rightarrow> (JSValue \<Rightarrow> string \<Rightarrow> JSValue \<Rightarrow> machine \<Rightarrow> (native_exc + int) \<times> machine)
    \<Rightarrow> Value \<Rightarrow> string \<Rightarrow> Value \<Rightarrow> machine \<Rightarrow> (native_exc + bool) \<times> machine" where
  "set_property E JS_SetPropertyStr this name val m =
     (case v_ctx this of
        None \<Rightarrow> (throw_value_exception ''no context'', m)
      | Some ctx \<Rightarrow>
          (case steal val of
             Inl e \<Rightarrow> (Inl e, m)
           | Inr jsv \<Rightarrow>
               (case JS_SetPropertyStr (v_val this) name jsv m of
                  (Inl e, m1) \<Rightarrow> (Inl e, m1)
                | (Inr ret, m1) \<Rightarrow>
                    if ret < 0 then
                      (case JS_GetException m1 of
                         (ex, m2) \<Rightarrow> (Inl (do_throw E this (value_of ctx ex False) m2), m2))
                    else (Inr (ret \<noteq> 0), m1))))"

text \<open>
  Modelled from the spec: the engine's property write on an object whose property has a
  setter written in script. The engine runs the setter function and reports its failure
  with the return code -1, the exception staying pending in the engine; success is the
  return code 1.
\<close>

definition JS_SetPropertyStr_setter ::
  "(machine \<Rightarrow> (native_exc + JSValue) \<times> machine) \<Rightarrow> JSValue \<Rightarrow> string \<Rightarrow> JSValue \<Rightarrow> machine
    \<Rightarrow> (native_exc + int) \<times> machine" where
  "JS_SetPropertyStr_setter setter obj name v m =
     (case setter m of
        (Inl e, m1) \<Rightarrow> (Inl e, m1)
      | (Inr r, m1) \<Rightarrow> (Inr (if JS_IsException r then - 1 else 1), m1))"

section \<open>Lifetime tracking\<close>

text \<open>
  Host objects live at addresses. A tracked Value is a Value with its \<open>owner_\<close> link (the
  address of the Context whose \<open>values_\<close> list holds it). The intrusive list of an owner
  is the list of the addresses linked into it, head first: \<open>insert_head\<close> conses,
  \<open>unlink\<close> removes the entry from the list it is in. \<open>for_each\<close> reads the successor
  before it calls the function, so the function may unlink the entry it is called on; it
  visits the entries linked when it starts.
\<close>

record TrackedValue = Value +
  v_owner :: "nat option"

record inst_ref =
  ir_refs :: "64 word"
  ir_weak_val :: JSValue

record Runtime =
  r_contexts :: "nat list"
  weak_object_refs :: "nat \<rightharpoonup> inst_ref"

text \<open>
  The store: the Value and Context objects by address, the one Runtime, the engine's
  opaque pointer of each engine context (\<open>JS_GetContextOpaque\<close>), the number of engine
  contexts created so far (the next handle of \<open>JS_NewContext\<close>) and whether the Runtime
  still answers \<open>JS_GetRuntimeOpaque\<close>.
\<close>

record store =
  s_values :: "nat \<rightharpoonup> TrackedValue"
  s_contexts :: "nat \<rightharpoonup> Context"
  s_runtime :: Runtime
  s_opaque :: "nat \<rightharpoonup> nat"
  s_next_ctx :: nat
  s_rt_opaque :: bool

definition upd_value :: "nat \<Rightarrow> (TrackedValue \<Rightarrow> TrackedValue) \<Rightarrow> store \<Rightarrow> store" where
  "upd_value a f s = s\<lparr>s_values := (s_values s)(a := map_option f (s_values s a))\<rparr>"

definition upd_context :: "nat \<Rightarrow> (Context \<Rightarrow> Context) \<Rightarrow> store \<Rightarrow> store" where
  "upd_context a f s = s\<lparr>s_contexts := (s_contexts s)(a := map_option f (s_contexts s a))\<rparr>"

definition unlink_value :: "nat \<Rightarrow> store \<Rightarrow> store" where
  "unlink_value a s =
     s\<lparr>s_contexts := (\<lambda>k. map_option (\<lambda>c. c\<lparr>c_values := removeAll a (c_values c)\<rparr>) (s_contexts s k))\<rparr>"

definition unlink_context :: "nat \<Rightarrow> store \<Rightarrow> store" where
  "unlink_context a s =
     s\<lparr>s_runtime := (s_runtime s)\<lparr>r_contexts := removeAll a (r_contexts (s_runtime s))\<rparr>\<rparr>"

definition value_at :: "store \<Rightarrow> nat \<Rightarrow> TrackedValue" where
  "value_at s a = (case s_values s a of Some v \<Rightarrow> v
     | None \<Rightarrow> \<lparr>v_ctx = None, v_val = JS_NewInt32 0, v_owner = None\<rparr>)"

definition context_default :: Context where
  "context_default = \<lparr>c_ctx = None, c_owner = None, c_clevel = 0, c_values = [],
     c_excpt = None, c_classes = Map.empty\<rparr>"

definition context_at :: "store \<Rightarrow> nat \<Rightarrow> Context" where
  "context_at s a = (case s_contexts s a of Some c \<Rightarrow> c | None \<Rightarrow> context_default)"

subsection \<open>class value\<close>

text \<open>\<open>value::track()\<close>; \<open>get_context()\<close> is the opaque pointer of \<open>ctx_\<close>.\<close>

definition value_track :: "nat \<Rightarrow> store \<Rightarrow> store" where
  "value_track a s =
     (let v = value_at s a in
      case (v_owner v, v_ctx v) of
        (None, Some ctx) \<Rightarrow>
          (case s_opaque s ctx of
             None \<Rightarrow> s
           | Some ca \<Rightarrow>
               upd_context ca (\<lambda>c. c\<lparr>c_values := a # c_values c\<rparr>)
                 (upd_value a (\<lambda>v. v\<lparr>v_owner := Some ca\<rparr>) s))
      | _ \<Rightarrow> s)"

definition value_untrack :: "nat \<Rightarrow> store \<Rightarrow> store" where
  "value_untrack a s =
     (if v_owner (value_at s a) \<noteq> None
      then upd_value a (\<lambda>v. v\<lparr>v_owner := None\<rparr>) (unlink_value a s)
      else s)"

text \<open>\<open>value::track(value& from)\<close>.\<close>

definition value_track_from :: "nat \<Rightarrow> nat \<Rightarrow> store \<Rightarrow> store" where
  "value_track_from a from s =
     (let s1 = (if v_owner (value_at s from) \<noteq> None
                then upd_value from (\<lambda>v. v\<lparr>v_owner := None\<rparr>) (value_untrack from s) else s);
          s2 = (if v_owner (value_at s1 a) \<noteq> None
                then upd_value a (\<lambda>v. v\<lparr>v_owner := None\<rparr>) (unlink_value a s1) else s1)
      in case v_ctx (value_at s2 a) of
           None \<Rightarrow> s2
         | Some ctx \<Rightarrow>
             (case s_opaque s2 ctx of
                None \<Rightarrow> s2
              | Some ca \<Rightarrow>
                  upd_context ca (\<lambda>c. c\<lparr>c_values := a # c_values c\<rparr>)
                    (upd_value a (\<lambda>v. v\<lparr>v_owner := Some ca\<rparr>) s2)))"

text \<open>\<open>value()\<close> and \<open>explicit value(JSContext* ctx, JSValue val)\<close> at address \<open>a\<close>.\<close>

definition value_new_default :: "nat \<Rightarrow> store \<Rightarrow> store" where
  "value_new_default a s =
     s\<lparr>s_values := (s_values s)(a \<mapsto> \<lparr>v_ctx = None, v_val = JS_NewInt32 0, v_owner = None\<rparr>)\<rparr>"

definition value_new :: "nat \<Rightarrow> nat \<Rightarrow> JSValue \<Rightarrow> store \<Rightarrow> store" where
  "value_new a ctx val s =
     value_track a (s\<lparr>s_values := (s_values s)(a \<mapsto> \<lparr>v_ctx = Some ctx, v_val = val, v_owner = None\<rparr>)\<rparr>)"

text \<open>\<open>value(value&& from)\<close> at address \<open>a\<close>.\<close>

definition value_new_move :: "nat \<Rightarrow> nat \<Rightarrow> store \<Rightarrow> store" where
  "value_new_move a from s =
     (let f = value_at s from;
          s1 = s\<lparr>s_values := (s_values s)(a \<mapsto> \<lparr>v_ctx = v_ctx f, v_val = v_val f, v_owner = None\<rparr>)\<rparr>
      in if from \<noteq> a then
           (let s2 = upd_value from (\<lambda>v. v\<lparr>v_ctx := None, v_val := JS_NewInt32 0\<rparr>) s1
            in if v_ctx f \<noteq> None then value_track_from a from s2 else s2)
         else s1)"

text \<open>\<open>value& operator=(value&& from)\<close>.\<close>

definition value_move_assign :: "nat \<Rightarrow> nat \<Rightarrow> store \<Rightarrow> store" where
  "value_move_assign this from s =
     (if from \<noteq> this then
        (let s1 = (if v_ctx (value_at s this) \<noteq> None
                   then (if v_ctx (value_at s from) = None then value_untrack this s else s)
                   else if v_ctx (value_at s from) \<noteq> None then value_track this s else s);
             f = value_at s1 from;
             s2 = upd_value this (\<lambda>v. v\<lparr>v_ctx := v_ctx f, v_val := v_val f\<rparr>) s1;
             s3 = upd_value from (\<lambda>v. v\<lparr>v_ctx := None, v_val := JS_NewInt32 0\<rparr>) s2
         in if v_ctx (value_at s3 this) \<noteq> None then value_untrack from s3 else s3)
      else s)"

text \<open>\<open>value::abandon()\<close> and \<open>~value()\<close> (which also ends the object).\<close>

definition value_abandon :: "nat \<Rightarrow> store \<Rightarrow> store" where
  "value_abandon a s =
     (let s1 = (if v_owner (value_at s a) \<noteq> None
                then unlink_value a (upd_value a (\<lambda>v. v\<lparr>v_owner := None\<rparr>) s) else s)
      in upd_value a (\<lambda>v. v\<lparr>v_ctx := None, v_val := JS_NewInt32 0\<rparr>) s1)"

definition value_delete :: "nat \<Rightarrow> store \<Rightarrow> store" where
  "value_delete a s = (let s1 = value_untrack a s in s1\<lparr>s_values := (s_values s1)(a := None)\<rparr>)"

definition value_valid_at :: "store \<Rightarrow> nat \<Rightarrow> bool" where
  "value_valid_at s a = valid (value_at s a)"

subsection \<open>class context\<close>

definition context_untrack :: "nat \<Rightarrow> store \<Rightarrow> store" where
  "context_untrack a s =
     (if c_owner (context_at s a) \<noteq> None
      then upd_context a (\<lambda>c. c\<lparr>c_owner := None\<rparr>) (unlink_context a s)
      else s)"

text \<open>
  \<open>context::track(context& from)\<close>; \<open>get_runtime()\<close> is the Runtime (address 0) as long
  as it answers \<open>JS_GetRuntimeOpaque\<close>.
\<close>

definition context_track_from :: "nat \<Rightarrow> nat \<Rightarrow> store \<Rightarrow> store" where
  "context_track_from a from s =
     (let s1 = (if c_owner (context_at s from) \<noteq> None
                then upd_context from (\<lambda>c. c\<lparr>c_owner := None\<rparr>) (context_untrack from s) else s);
          s2 = (if c_owner (context_at s1 a) \<noteq> None
                then upd_context a (\<lambda>c. c\<lparr>c_owner := None\<rparr>) (unlink_context a s1) else s1)
      in if c_ctx (context_at s2 a) \<noteq> None \<and> s_rt_opaque s2
         then (upd_context a (\<lambda>c. c\<lparr>c_owner := Some 0\<rparr>) s2)
                \<lparr>s_runtime := (s_runtime s2)\<lparr>r_contexts := a # r_contexts (s_runtime s2)\<rparr>\<rparr>
         else s2)"

text \<open>
  \<open>context()\<close> and the private \<open>context(runtime* own, JSRuntime* rt)\<close> at address \<open>a\<close>;
  in the latter \<open>owner_\<close> is set by the initialiser, so the \<open>track()\<close> that follows finds
  an owner and links nothing.
\<close>

definition context_new_default :: "nat \<Rightarrow> store \<Rightarrow> store" where
  "context_new_default a s = s\<lparr>s_contexts := (s_contexts s)(a \<mapsto> context_default)\<rparr>"

definition context_new :: "nat \<Rightarrow> store \<Rightarrow> store" where
  "context_new a s =
     (let ctx = s_next_ctx s
      in s\<lparr>s_contexts := (s_contexts s)(a \<mapsto> context_default\<lparr>c_ctx := Some ctx, c_owner := Some 0\<rparr>),
           s_opaque := (s_opaque s)(ctx \<mapsto> a),
           s_next_ctx := Suc ctx\<rparr>)"

text \<open>\<open>context& operator=(context&& from)\<close>.\<close>

definition context_move_assign :: "nat \<Rightarrow> nat \<Rightarrow> store \<Rightarrow> store" where
  "context_move_assign this from s =
     (if from \<noteq> this then
        (let fc = c_ctx (context_at s from);
             s1 = upd_context from (\<lambda>c. c\<lparr>c_ctx := None\<rparr>)
                    (upd_context this (\<lambda>c. c\<lparr>c_ctx := fc\<rparr>) s);
             s2 = (case fc of None \<Rightarrow> s1 | Some ctx \<Rightarrow> s1\<lparr>s_opaque := (s_opaque s1)(ctx \<mapsto> this)\<rparr>)
         in context_track_from this from s2)
      else s)"

text \<open>\<open>context::abandon()\<close>, \<open>~context()\<close> and \<open>context::valid()\<close>.\<close>

definition context_abandon :: "nat \<Rightarrow> store \<Rightarrow> store" where
  "context_abandon a s =
     (let s1 = (case c_ctx (context_at s a) of
                  None \<Rightarrow> s
                | Some ctx \<Rightarrow>
                    upd_context a (\<lambda>c. c\<lparr>c_ctx := None\<rparr>) (s\<lparr>s_opaque := (s_opaque s)(ctx := None)\<rparr>))
      in if c_owner (context_at s1 a) \<noteq> None
         then upd_context a (\<lambda>c. c\<lparr>c_owner := None\<rparr>) (unlink_context a s1)
         else s1)"

definition context_delete :: "nat \<Rightarrow> store \<Rightarrow> store" where
  "context_delete a s =
     (let s1 = fold value_abandon (c_values (context_at s a)) s;
          s2 = context_untrack a s1;
          s3 = (case c_ctx (context_at s2 a) of
                  None \<Rightarrow> s2
                | Some ctx \<Rightarrow> s2\<lparr>s_opaque := (s_opaque s2)(ctx := None)\<rparr>)
      in s3\<lparr>s_contexts := (s_contexts s3)(a := None)\<rparr>)"

definition context_valid_at :: "store \<Rightarrow> nat \<Rightarrow> bool" where
  "context_valid_at s a = context_valid (context_at s a)"

subsection \<open>class runtime\<close>

text \<open>\<open>runtime()\<close>, \<open>new_context()\<close> (the temporary it returns, at address \<open>a\<close>) and \<open>~runtime()\<close>.\<close>

definition runtime_new :: store where
  "runtime_new = \<lparr>s_values = Map.empty, s_contexts = Map.empty,
     s_runtime = \<lparr>r_contexts = [], weak_object_refs = Map.empty\<rparr>,
     s_opaque = Map.empty, s_next_ctx = 0, s_rt_opaque = True\<rparr>"

definition new_context :: "nat \<Rightarrow> store \<Rightarrow> store" where
  "new_context a s = context_new a s"

definition runtime_delete :: "store \<Rightarrow> store" where
  "runtime_delete s =
     (fold context_abandon (r_contexts (s_runtime s)) s)\<lparr>s_rt_opaque := False\<rparr>"

text \<open>
  The stores of the failing input of C3: a default-constructed Context at address 1 that
  is move-assigned the temporary \<open>new_context()\<close> returns (at address 2, destroyed
  afterwards); then a Value at address 10, move-constructed from the temporary (at
  address 11) that \<open>get_global_object()\<close> returns; and the same with a default-constructed
  Value at address 10 that is move-assigned the temporary.
\<close>

definition store_with_context :: store where
  "store_with_context =
     context_delete 2 (context_move_assign 1 2 (new_context 2 (context_new_default 1 runtime_new)))"

definition store_with_value :: store where
  "store_with_value =
     value_delete 11 (value_new_move 10 11 (value_new 11 0 (JS_Object 1) store_with_context))"

definition store_with_assigned_value :: store where
  "store_with_assigned_value =
     value_delete 11 (value_move_assign 10 11
       (value_new 11 0 (JS_Object 1) (value_new_default 10 store_with_context)))"

section \<open>Weak-identity table\<close>

text \<open>
  \<open>runtime::ref_inst_value\<close> inserts an entry for the instance unless there is one
  (\<open>std::map::insert\<close>) and counts one more reference on the entry found;
  \<open>unref_inst_value\<close> counts one down (\<open>size_t\<close>) and erases the entry at zero;
  \<open>get_inst_value\<close> returns a duplicate of the recorded engine value.
\<close>

definition ref_inst_value :: "nat \<Rightarrow> JSValue \<Rightarrow> Runtime \<Rightarrow> Runtime" where
  "ref_inst_value inst weak_val r =
     (let ir = (case weak_object_refs r inst of
                  None \<Rightarrow> \<lparr>ir_refs = 0, ir_weak_val = weak_val\<rparr>
                | Some ir \<Rightarrow> ir)
      in r\<lparr>weak_object_refs := (weak_object_refs r)(inst \<mapsto> ir\<lparr>ir_refs := ir_refs ir + 1\<rparr>)\<rparr>)"

definition unref_inst_value :: "nat \<Rightarrow> Runtime \<Rightarrow> Runtime" where
  "unref_inst_value inst r =
     (case weak_object_refs r inst of
        None \<Rightarrow> r
      | Some ir \<Rightarrow>
          if ir_refs ir - 1 = 0
          then r\<lparr>weak_object_refs := (weak_object_refs r)(inst := None)\<rparr>
          else r\<lparr>weak_object_refs := (weak_object_refs r)(inst \<mapsto> ir\<lparr>ir_refs := ir_refs ir - 1\<rparr>)\<rparr>)"








section \<open>Properties\<close>

subsection \<open>Unsigned 32-bit arguments\<close>

lemma sint_of_large_unat:
  fixes w :: "32 word"
  assumes "2 ^ 31 \<le> unat w"
  shows "sint w = int (unat w) - 2 ^ 32"
proof -
  define k where "k = uint w"
  have ku: "int (unat w) = k" unfolding k_def by simp
  from assms have "int (2 ^ 31) \<le> int (unat w)" by (simp only: of_nat_le_iff)
  then have lo: "2 ^ 31 \<le> k" unfolding k_def by simp
  have hi: "k < 2 ^ 32" unfolding k_def using uint_bounded [of w] by simp
  have "(k + 2 ^ 31) mod 2 ^ 32 = k - 2 ^ 31"
  proof -
    have "(k + 2 ^ 31) mod 2 ^ 32 = (k - 2 ^ 31 + 2 ^ 32) mod 2 ^ 32"
      by (simp add: add.commute)
    also have "\<dots> = (k - 2 ^ 31) mod 2 ^ 32" by (simp only: mod_add_self2)
    also have "\<dots> = k - 2 ^ 31" using lo hi by simp
    finally show ?thesis .
  qed
  then have "signed_take_bit 31 k = k - 2 ^ 32"
    by (simp add: signed_take_bit_eq_take_bit_shift take_bit_eq_mod)
  then have "sint w = k - 2 ^ 32" by (simp add: sint_uint k_def)
  then show ?thesis using ku by simp
qed

lemma unat32_below: "int (unat (w :: 32 word)) - 2 ^ 32 < 0"
  using unsigned_less [of w, where ?'a = int] by simp

text \<open>
  C10. A \<open>uint32_t\<close> argument of a variadic call is marshalled through
  \<open>JS_NewInt32(static_cast<int32_t>(val))\<close>: an argument of at least \<open>2^31\<close> reaches the
  script as the negative two's-complement number \<open>val - 2^32\<close>, not as its unsigned
  magnitude.
\<close>

theorem new_jsvalue_uint32_signed:
  assumes "2 ^ 31 \<le> unat w"
  shows "js_int_of (new_jsvalue (AUInt32 w)) = Some (int (unat w) - 2 ^ 32)
    \<and> int (unat w) - 2 ^ 32 < 0
    \<and> js_int_of (new_jsvalue (AUInt32 w)) \<noteq> Some (int (unat w))"
proof -
  have s: "sint w = int (unat w) - 2 ^ 32"
    using assms by (rule sint_of_large_unat)
  have eq: "js_int_of (new_jsvalue (AUInt32 w)) = Some (int (unat w) - 2 ^ 32)"
    by (simp only: new_jsvalue.simps static_cast_int32_def js_int_of.simps s)
  have neg: "int (unat w) - 2 ^ 32 < 0" by (rule unat32_below)
  have ne: "int (unat w) - 2 ^ 32 \<noteq> int (unat w)" by simp
  show ?thesis using eq neg ne by (simp only: option.inject simp_thms)
qed

theorem new_jsvalue_uint32_signed_witness:
  "2 ^ 31 \<le> unat (4294967295 :: 32 word)
   \<and> js_int_of (new_jsvalue (AUInt32 4294967295)) = Some (- 1)"
proof -
  have h: "2 ^ 31 \<le> unat (4294967295 :: 32 word)" by simp
  show ?thesis using h new_jsvalue_uint32_signed [OF h] by simp
qed

lemma length_fold_update:
  "length (fold (\<lambda>i vec. vec[i := f i]) is vec) = length vec"
  by (induction "is" arbitrary: vec) simp_all

lemma nth_fold_update_upt:
  "b \<le> length vec \<Longrightarrow> j < length vec \<Longrightarrow>
   fold (\<lambda>i vec. vec[i := f i]) [a..<b] vec ! j = (if a \<le> j \<and> j < b then f j else vec ! j)"
proof (induction b)
  case 0
  then show ?case by simp
next
  case (Suc b)
  show ?case
  proof (cases "a \<le> b")
    case True
    then have "[a..<Suc b] = [a..<b] @ [b]" by simp
    then show ?thesis using Suc
      by (auto simp: length_fold_update nth_list_update)
  next
    case False
    then have "[a..<Suc b] = []" by simp
    moreover have "\<not> (a \<le> j \<and> j < Suc b)" using False by arith
    ultimately show ?thesis by auto
  qed
qed

lemma args_length: "length (a_vec (args ctx N t argc argv)) = max N argc"
  by (simp add: args_def Let_def length_fold_update max_def)

lemma args_front:
  assumes "i < argc"
  shows "a_vec (args ctx N t argc argv) ! i = value_of ctx (argv ! i) True"
  using assms
  by (simp add: args_def Let_def length_fold_update nth_fold_update_upt)

lemma args_padding:
  assumes "argc \<le> i" "i < N"
  shows "a_vec (args ctx N t argc argv) ! i = undefined_value ctx"
  using assms
  by (simp add: args_def Let_def length_fold_update nth_fold_update_upt)

lemma expand_take:
  "N \<le> length (a_vec a) \<Longrightarrow> handle_closure_expand_helper N a = map convert (take N (a_vec a))"
  unfolding handle_closure_expand_helper_def
  by (rule nth_equalityI) simp_all

subsection \<open>Shape of the argument view\<close>

lemma list_of_length_2: "length xs = 2 \<Longrightarrow> xs = [xs ! 0, xs ! 1]"
  by (auto simp: length_Suc_conv numeral_2_eq_2)

lemma list_of_length_3: "length xs = 3 \<Longrightarrow> xs = [xs ! 0, xs ! 1, xs ! 2]"
  by (auto simp: length_Suc_conv numeral_3_eq_3)

text \<open>
  C5. For a closure of declared arity \<open>N\<close> called with \<open>argc\<close> script arguments, the
  argument view has \<open>max N argc\<close> entries, each a valid Value of the handler's context:
  entry \<open>i\<close> below \<open>argc\<close> holds the engine argument \<open>argv[i]\<close>, the entries from \<open>argc\<close>
  up to \<open>N\<close> hold \<open>JS_UNDEFINED\<close>, and the receiver holds \<open>this_obj\<close>. The callable
  receives exactly \<open>N\<close> positional parameters, the adaptors of the first \<open>N\<close> entries, so
  arguments beyond \<open>N\<close> are left out of the expansion although the view still has all
  \<open>argc\<close> of them (also when the view itself is passed as the first parameter).
\<close>

theorem args_shape:
  fixes ctx N this_obj argc argv
  defines "A \<equiv> args ctx N this_obj argc argv"
  shows "length (a_vec A) = max N argc
    \<and> (\<forall>i<argc. a_vec A ! i = \<lparr>v_ctx = Some ctx, v_val = argv ! i\<rparr>)
    \<and> (\<forall>i. argc \<le> i \<and> i < N \<longrightarrow> a_vec A ! i = \<lparr>v_ctx = Some ctx, v_val = JS_UNDEFINED\<rparr>)
    \<and> (\<forall>i. argc \<le> i \<and> i < N \<longrightarrow> JS_IsUndefined (v_val (a_vec A ! i)))
    \<and> (\<forall>i < max N argc. valid (a_vec A ! i))
    \<and> a_this A = \<lparr>v_ctx = Some ctx, v_val = this_obj\<rparr>
    \<and> handle_closure_expand_helper N A = map convert (take N (a_vec A))
    \<and> length (handle_closure_expand_helper N A) = N
    \<and> handle_closure_expand_with_args_helper N A = (A, map convert (take N (a_vec A)))"
proof -
  have len: "length (a_vec A) = max N argc"
    unfolding A_def by (rule args_length)
  have front: "\<forall>i<argc. a_vec A ! i = \<lparr>v_ctx = Some ctx, v_val = argv ! i\<rparr>"
    unfolding A_def by (simp add: args_front value_of_def JS_DupValue_def)
  have pad: "\<forall>i. argc \<le> i \<and> i < N \<longrightarrow> a_vec A ! i = \<lparr>v_ctx = Some ctx, v_val = JS_UNDEFINED\<rparr>"
    unfolding A_def by (simp add: args_padding undefined_value_def value_of_def)
  have und: "\<forall>i. argc \<le> i \<and> i < N \<longrightarrow> JS_IsUndefined (v_val (a_vec A ! i))"
    using pad by (simp add: JS_IsUndefined_def)
  have all_valid: "\<forall>i < max N argc. valid (a_vec A ! i)"
  proof (intro allI impI)
    fix i assume i: "i < max N argc"
    show "valid (a_vec A ! i)"
    proof (cases "i < argc")
      case True
      then show ?thesis using front by (simp add: valid_def)
    next
      case False
      then have "argc \<le> i \<and> i < N" using i by simp
      then show ?thesis using pad by (simp add: valid_def)
    qed
  qed
  have recv: "a_this A = \<lparr>v_ctx = Some ctx, v_val = this_obj\<rparr>"
    unfolding A_def by (simp add: args_def Let_def value_of_def JS_DupValue_def)
  have "N \<le> length (a_vec A)" using len by simp
  then have ex: "handle_closure_expand_helper N A = map convert (take N (a_vec A))"
    by (rule expand_take)
  have exlen: "length (handle_closure_expand_helper N A) = N"
    by (simp add: handle_closure_expand_helper_def)
  have exa: "handle_closure_expand_with_args_helper N A = (A, map convert (take N (a_vec A)))"
    using ex by (simp add: handle_closure_expand_with_args_helper_def handle_closure_expand_helper_def)
  show ?thesis using len front pad und all_valid recv ex exlen exa by blast
qed

theorem args_shape_witness:
  "a_vec (args 0 3 JS_NULL 1 [JS_NewInt32 7]) =
     [\<lparr>v_ctx = Some 0, v_val = JS_NewInt32 7\<rparr>, \<lparr>v_ctx = Some 0, v_val = JS_UNDEFINED\<rparr>,
      \<lparr>v_ctx = Some 0, v_val = JS_UNDEFINED\<rparr>]
   \<and> a_vec (args 0 1 JS_NULL 2 [JS_NewInt32 7, JS_NewString ''x'']) =
     [\<lparr>v_ctx = Some 0, v_val = JS_NewInt32 7\<rparr>, \<lparr>v_ctx = Some 0, v_val = JS_NewString ''x''\<rparr>]
   \<and> handle_closure_expand_helper 1 (args 0 1 JS_NULL 2 [JS_NewInt32 7, JS_NewString ''x'']) =
     [convert \<lparr>v_ctx = Some 0, v_val = JS_NewInt32 7\<rparr>]"
proof -
  let ?A = "args 0 3 JS_NULL 1 [JS_NewInt32 7]"
  let ?B = "args 0 1 JS_NULL 2 [JS_NewInt32 7, JS_NewString ''x'']"
  note a = args_shape [where ctx = 0 and N = 3 and this_obj = JS_NULL and argc = 1
      and argv = "[JS_NewInt32 7]"]
  note b = args_shape [where ctx = 0 and N = 1 and this_obj = JS_NULL and argc = 2
      and argv = "[JS_NewInt32 7, JS_NewString ''x'']"]
  have la: "length (a_vec ?A) = 3" using a by simp
  have a0: "a_vec ?A ! 0 = \<lparr>v_ctx = Some 0, v_val = JS_NewInt32 7\<rparr>" using a by simp
  have a1: "a_vec ?A ! 1 = \<lparr>v_ctx = Some 0, v_val = JS_UNDEFINED\<rparr>" using a by simp
  have a2: "a_vec ?A ! 2 = \<lparr>v_ctx = Some 0, v_val = JS_UNDEFINED\<rparr>" using a by simp
  have A: "a_vec ?A = [\<lparr>v_ctx = Some 0, v_val = JS_NewInt32 7\<rparr>,
      \<lparr>v_ctx = Some 0, v_val = JS_UNDEFINED\<rparr>, \<lparr>v_ctx = Some 0, v_val = JS_UNDEFINED\<rparr>]"
    using list_of_length_3 [OF la] a0 a1 a2 by simp
  have lb: "length (a_vec ?B) = 2" using b by simp
  have b0: "a_vec ?B ! 0 = \<lparr>v_ctx = Some 0, v_val = JS_NewInt32 7\<rparr>" using b by simp
  have b1: "a_vec ?B ! 1 = \<lparr>v_ctx = Some 0, v_val = JS_NewString ''x''\<rparr>" using b by simp
  have B: "a_vec ?B = [\<lparr>v_ctx = Some 0, v_val = JS_NewInt32 7\<rparr>,
      \<lparr>v_ctx = Some 0, v_val = JS_NewString ''x''\<rparr>]"
    using list_of_length_2 [OF lb] b0 b1 by simp
  have "handle_closure_expand_helper 1 ?B = map convert (take 1 (a_vec ?B))" using b by blast
  then have C: "handle_closure_expand_helper 1 ?B = [convert \<lparr>v_ctx = Some 0, v_val = JS_NewInt32 7\<rparr>]"
    unfolding B by simp
  show ?thesis using A B C by blast
qed

subsection \<open>Exception routing\<close>

lemma excpt_update_same: "c_excpt (m :: machine) = None \<Longrightarrow> m\<lparr>c_excpt := None\<rparr> = m"
  by (cases m) simp

lemma handler_forwards:
  assumes "f m = (Inl e, m1)" "\<not> is_throw_exception e"
  shows "handle_closure_expand E f ctx m =
    (Inr JS_EXCEPTION, m1\<lparr>c_excpt := Some e, current_exception := JS_NewUncatchableError\<rparr>)"
  using assms
  by (cases e) (simp_all add: handle_closure_expand_def store_exception_def JS_Throw_def)

lemma frame_passes_uncatchable:
  assumes "handle_closure_expand E (run_native E ctx nb) ctx m = (Inr JS_EXCEPTION, m')"
    and "current_exception m' = JS_NewUncatchableError"
  shows "run_script E ctx (frame f nb) m = (Inr JS_EXCEPTION, m')"
  using assms
  by (cases f) (simp_all add: script_try_def JS_IsUncatchableError_def)

lemma boundary_rethrows:
  assumes "run_script E ctx sb (m\<lparr>c_clevel := c_clevel m + 1\<rparr>) =
      (Inr JS_EXCEPTION, m\<lparr>c_clevel := c_clevel m + 1, c_excpt := Some e,
         current_exception := JS_NewUncatchableError\<rparr>)"
    and "c_excpt m = None"
  shows "run_native E ctx (NCall sb) m = (Inl e, m\<lparr>current_exception := JS_NewUncatchableError\<rparr>)"
  using assms
  by (simp add: value_call_def value_of_def call_common_def call_common_args_def
      call_common_args_finish_def check_throw_def handle_pending_exception_def validate_def
      valid_def pop_exception_def call_level_exit_def undefined_value_def)

lemma script_forwards:
  assumes "\<not> is_throw_exception e"
  shows "c_excpt m = None \<Longrightarrow> run_script E ctx (nested f fs (NThrow e)) m =
    (Inr JS_EXCEPTION, m\<lparr>c_excpt := Some e, current_exception := JS_NewUncatchableError\<rparr>)"
proof (induction fs arbitrary: f m)
  case Nil
  have "handle_closure_expand E (run_native E ctx (NThrow e)) ctx m =
    (Inr JS_EXCEPTION, m\<lparr>c_excpt := Some e, current_exception := JS_NewUncatchableError\<rparr>)"
    by (rule handler_forwards [where f = "run_native E ctx (NThrow e)", OF _ assms]) simp
  then show ?case by (simp add: frame_passes_uncatchable)
next
  case (Cons g gs)
  let ?m1 = "m\<lparr>c_clevel := c_clevel m + 1\<rparr>"
  have "c_excpt ?m1 = None" using Cons.prems by simp
  from Cons.IH [OF this, of g]
  have inner: "run_script E ctx (nested g gs (NThrow e)) ?m1 =
    (Inr JS_EXCEPTION, m\<lparr>c_clevel := c_clevel m + 1, c_excpt := Some e,
       current_exception := JS_NewUncatchableError\<rparr>)" by simp
  have call: "run_native E ctx (NCall (nested g gs (NThrow e))) m =
    (Inl e, m\<lparr>current_exception := JS_NewUncatchableError\<rparr>)"
    by (rule boundary_rethrows [OF inner Cons.prems])
  have "handle_closure_expand E (run_native E ctx (NCall (nested g gs (NThrow e)))) ctx m =
    (Inr JS_EXCEPTION, m\<lparr>current_exception := JS_NewUncatchableError, c_excpt := Some e,
       current_exception := JS_NewUncatchableError\<rparr>)"
    by (rule handler_forwards
        [where f = "run_native E ctx (NCall (nested g gs (NThrow e)))", OF call assms])
  then show ?case by (simp add: frame_passes_uncatchable)
qed





lemma eval_rethrows:
  assumes "JS_Eval m = (Inr JS_EXCEPTION, m\<lparr>c_excpt := Some e, current_exception := x\<rparr>)"
    and "c_excpt m = None" and "context_valid m"
  shows "context_eval E JS_Eval m = (Inl e, m\<lparr>current_exception := x\<rparr>)"
proof -
  obtain ctx where "c_ctx m = Some ctx" using assms(3) by (auto simp: context_valid_def)
  then show ?thesis using assms
    by (simp add: context_eval_def context_validate_def value_of_def check_throw_def
        handle_pending_exception_def validate_def valid_def pop_exception_def)
qed

text \<open>
  What holds of C2: a native exception other than \<open>throw_exception\<close> thrown by a
  callback is stored as the Context's pending token while the handler throws the
  uncatchable error into the engine. Whatever script frames lie between (with or without
  \<open>try/catch\<close>, nested through further native closures), no \<open>catch\<close> clause receives
  anything, and when the native entry point that ran the script is \<open>value::operator()\<close>
  or \<open>context::eval\<close>, it raises the very same exception, with the token cleared and the
  call level restored.
\<close>

theorem foreign_exception_forwarded:
  assumes "\<not> is_throw_exception e" and "c_excpt m = None"
  shows "handle_closure_expand E (run_native E ctx (NThrow e)) ctx m =
      (Inr JS_EXCEPTION, m\<lparr>c_excpt := Some e, current_exception := JS_NewUncatchableError\<rparr>)
    \<and> run_native E ctx (NCall (nested f fs (NThrow e))) m =
      (Inl e, m\<lparr>current_exception := JS_NewUncatchableError\<rparr>)
    \<and> caught (snd (run_native E ctx (NCall (nested f fs (NThrow e))) m)) = caught m
    \<and> (context_valid m \<longrightarrow>
        context_eval E (run_script E ctx (nested f fs (NThrow e))) m =
          (Inl e, m\<lparr>current_exception := JS_NewUncatchableError\<rparr>))"
proof -
  have h: "handle_closure_expand E (run_native E ctx (NThrow e)) ctx m =
      (Inr JS_EXCEPTION, m\<lparr>c_excpt := Some e, current_exception := JS_NewUncatchableError\<rparr>)"
    by (rule handler_forwards [where f = "run_native E ctx (NThrow e)", OF _ assms(1)]) simp
  have "c_excpt (m\<lparr>c_clevel := c_clevel m + 1\<rparr>) = None" using assms(2) by simp
  from script_forwards [OF assms(1) this, of E ctx f fs]
  have "run_script E ctx (nested f fs (NThrow e)) (m\<lparr>c_clevel := c_clevel m + 1\<rparr>) =
      (Inr JS_EXCEPTION, m\<lparr>c_clevel := c_clevel m + 1, c_excpt := Some e,
         current_exception := JS_NewUncatchableError\<rparr>)" by simp
  then have c: "run_native E ctx (NCall (nested f fs (NThrow e))) m =
      (Inl e, m\<lparr>current_exception := JS_NewUncatchableError\<rparr>)"
    using assms(2) by (rule boundary_rethrows)
  have l: "caught (snd (run_native E ctx (NCall (nested f fs (NThrow e))) m)) = caught m"
    unfolding c by simp
  have ev: "context_valid m \<longrightarrow>
        context_eval E (run_script E ctx (nested f fs (NThrow e))) m =
          (Inl e, m\<lparr>current_exception := JS_NewUncatchableError\<rparr>)"
  proof
    assume cv: "context_valid m"
    have sf: "run_script E ctx (nested f fs (NThrow e)) m =
        (Inr JS_EXCEPTION, m\<lparr>c_excpt := Some e, current_exception := JS_NewUncatchableError\<rparr>)"
      using assms by (rule script_forwards)
    show "context_eval E (run_script E ctx (nested f fs (NThrow e))) m =
          (Inl e, m\<lparr>current_exception := JS_NewUncatchableError\<rparr>)"
      by (rule eval_rethrows
          [where JS_Eval = "run_script E ctx (nested f fs (NThrow e))", OF sf assms(2) cv])
  qed
  show ?thesis using h c l ev by blast
qed

theorem foreign_exception_forwarded_witness:
  "\<not> is_throw_exception (foreign_exception ''my_exception'' ''unrecoverable error'')
   \<and> c_excpt machine0 = None
   \<and> run_native engine0 0
        (NCall (nested (Some Rethrow) [Some (Return JS_NULL)]
           (NThrow (foreign_exception ''my_exception'' ''unrecoverable error'')))) machine0 =
      (Inl (foreign_exception ''my_exception'' ''unrecoverable error''),
       machine0\<lparr>current_exception := JS_NewUncatchableError\<rparr>)"
proof -
  have a: "\<not> is_throw_exception (foreign_exception ''my_exception'' ''unrecoverable error'')"
    by simp
  have b: "c_excpt machine0 = None" by (simp add: machine0_def)
  show ?thesis
    using a b foreign_exception_forwarded [OF a b, of engine0 0 "Some Rethrow" "[Some (Return JS_NULL)]"]
    by blast
qed

text \<open>
  C2 at the failing input. The native entry point is \<open>value::set_property\<close> on an object
  whose setter is a script function that calls, inside \<open>try/catch\<close>, a native closure
  throwing a foreign exception. The script \<open>catch\<close> receives nothing and the token is
  stored, but \<open>set_property\<close> does not look for the token: it raises \<open>value_exception\<close>
  holding the engine's uncatchable error object and leaves the foreign exception stored
  in the Context. Entered through \<open>value::operator()\<close>, the same script makes the
  boundary raise the foreign exception itself.
\<close>

theorem set_property_loses_foreign_exception:
  "set_property engine0
      (JS_SetPropertyStr_setter (run_script engine0 0
         (nested (Some Rethrow) [] (NThrow (foreign_exception ''my_exception'' ''unrecoverable error'')))))
      (value_of 0 (JS_Object 5) False) ''p'' (value_of 0 (JS_NewInt32 1) False) machine0 =
     (Inl (value_exception (value_of 0 JS_NewUncatchableError False)),
      machine0\<lparr>c_excpt := Some (foreign_exception ''my_exception'' ''unrecoverable error''),
        current_exception := JS_NULL\<rparr>)
   \<and> run_native engine0 0
        (NCall (nested (Some Rethrow) [] (NThrow (foreign_exception ''my_exception'' ''unrecoverable error''))))
        machine0 =
     (Inl (foreign_exception ''my_exception'' ''unrecoverable error''),
      machine0\<lparr>current_exception := JS_NewUncatchableError\<rparr>)"
  by (simp add: set_property_def JS_SetPropertyStr_setter_def steal_def validate_def valid_def
      value_of_def machine0_def handle_closure_expand_def store_exception_def JS_Throw_def
      script_try_def JS_IsUncatchableError_def JS_IsException_def JS_GetException_def
      do_throw_def value_call_def call_common_def call_common_args_def
      call_common_args_finish_def check_throw_def handle_pending_exception_def
      pop_exception_def call_level_exit_def undefined_value_def Let_def)







text \<open>
  C7 (as the code has it). When an engine call has failed with the exception marker and
  no native token is pending, \<open>check_throw\<close> takes the engine's pending exception,
  whatever it is, an Error object included, and raises a value-carrying exception that
  holds it: \<open>throw_exception\<close> above call level one, \<open>value_exception\<close> otherwise. It
  never raises \<open>value_error\<close> there, because \<open>do_throw\<close> tests the Value that holds the
  marker.
\<close>

theorem thrown_error_object_carried:
  assumes "v_ctx this = Some ctx" and "v_val this = JS_EXCEPTION" and "c_excpt m = None"
  shows "check_throw E this b m =
      (Inl (if c_clevel m > 1 then throw_exception (value_of ctx (current_exception m) False)
            else value_exception (value_of ctx (current_exception m) False)),
       m\<lparr>current_exception := JS_NULL\<rparr>)
    \<and> (\<forall>msg st. fst (check_throw E this b m) \<noteq> Inl (value_error msg st))"
proof -
  have c: "check_throw E this b m =
      (Inl (if c_clevel m > 1 then throw_exception (value_of ctx (current_exception m) False)
            else value_exception (value_of ctx (current_exception m) False)),
       m\<lparr>current_exception := JS_NULL\<rparr>)"
    using assms
    by (cases b)
      (simp_all add: check_throw_def handle_pending_exception_def validate_def valid_def
        pop_exception_def JS_IsException_def JS_GetException_def do_throw_def
        excpt_update_same)
  have "\<forall>msg st. fst (check_throw E this b m) \<noteq> Inl (value_error msg st)"
    unfolding c by simp
  then show ?thesis using c by blast
qed

theorem thrown_error_object_carried_witness:
  "v_ctx (value_of 0 JS_EXCEPTION False) = Some 0
   \<and> v_val (value_of 0 JS_EXCEPTION False) = JS_EXCEPTION
   \<and> c_excpt (machine0\<lparr>c_clevel := 1, current_exception := JS_ErrorObject 7\<rparr>) = None
   \<and> JS_IsError (JS_ErrorObject 7)
   \<and> fst (check_throw engine0 (value_of 0 JS_EXCEPTION False) True
        (machine0\<lparr>c_clevel := 1, current_exception := JS_ErrorObject 7\<rparr>)) =
      Inl (value_exception (value_of 0 (JS_ErrorObject 7) False))"
proof -
  let ?m = "machine0\<lparr>c_clevel := 1, current_exception := JS_ErrorObject 7\<rparr>"
  have a: "v_ctx (value_of 0 JS_EXCEPTION False) = Some 0" by (simp add: value_of_def)
  have b: "v_val (value_of 0 JS_EXCEPTION False) = JS_EXCEPTION" by (simp add: value_of_def)
  have c: "c_excpt ?m = None" by (simp add: machine0_def)
  show ?thesis
    using a b c thrown_error_object_carried [OF a b c, of engine0 True]
    by simp
qed

text \<open>
  C7 as stated fails: a call whose engine side throws an Error object (a TypeError for a
  callee that is not a function) makes the boundary raise \<open>value_exception\<close> holding the
  Error object, not \<open>value_error\<close>.
\<close>

theorem error_object_counterexample:
  "run_native engine0 0 (NCall (SThrow (JS_ErrorObject 7))) machine0 =
     (Inl (value_exception (value_of 0 (JS_ErrorObject 7) False)), machine0)
   \<and> JS_IsError (JS_ErrorObject 7)"
  by (simp add: JS_Throw_def value_of_def machine0_def JS_IsException_def
      value_call_def call_common_def call_common_args_def call_common_args_finish_def
      check_throw_def handle_pending_exception_def validate_def valid_def pop_exception_def
      call_level_exit_def undefined_value_def JS_GetException_def do_throw_def Let_def)

subsection \<open>Methods on an invalid Value\<close>

text \<open>
  C4 (as the code has it). On an invalid Value every method that validates (the type
  predicates, the throwing conversions, \<open>as_cstring\<close>, \<open>get_property\<close>, \<open>steal\<close>, the call
  operator) raises \<open>value_exception\<close> with the message "no context"; the non-throwing
  conversions raise nothing and report failure; \<open>valid()\<close> is false.
\<close>

theorem invalid_value_no_context:
  assumes "\<not> valid v"
  shows "is_null v = Inl (value_exception_msg ''no context'')
    \<and> is_undefined v = Inl (value_exception_msg ''no context'')
    \<and> is_exception v = Inl (value_exception_msg ''no context'')
    \<and> is_function E v = Inl (value_exception_msg ''no context'')
    \<and> is_number v = Inl (value_exception_msg ''no context'')
    \<and> is_object v = Inl (value_exception_msg ''no context'')
    \<and> is_string v = Inl (value_exception_msg ''no context'')
    \<and> is_bool v = Inl (value_exception_msg ''no context'')
    \<and> as_bool E v = Inl (value_exception_msg ''no context'')
    \<and> as_int32 E v = Inl (value_exception_msg ''no context'')
    \<and> as_string E v = Inl (value_exception_msg ''no context'')
    \<and> as_cstring E v = Inl (value_exception_msg ''no context'')
    \<and> get_property E v name = Inl (value_exception_msg ''no context'')
    \<and> steal v = Inl (value_exception_msg ''no context'')
    \<and> value_call E JS_Call v a m = (Inl (value_exception_msg ''no context''), m)
    \<and> as_bool_flag E v = (False, False)
    \<and> as_int32_flag E v = (False, 0)
    \<and> as_string_flag E v = None
    \<and> what (value_exception_msg ''no context'') = ''no context''"
proof -
  have c: "v_ctx v = None" using assms by (simp add: valid_def)
  have va: "validate v = Inl (value_exception_msg ''no context'')"
    using assms by (simp add: validate_def throw_value_exception_def)
  show ?thesis
    using assms
    by (simp add: va c is_null_def is_undefined_def is_exception_def is_function_def
        is_number_def is_object_def is_string_def is_bool_def as_bool_def as_int32_def
        as_string_def as_cstring_def get_property_def steal_def value_call_def
        as_bool_flag_def as_int32_flag_def as_string_flag_def throw_value_exception_def)
qed

theorem invalid_value_no_context_witness:
  "\<not> valid value_default
   \<and> is_null value_default = Inl (value_exception_msg ''no context'')
   \<and> as_int32_flag engine0 value_default = (False, 0)"
proof -
  have h: "\<not> valid value_default" by (simp add: valid_def value_default_def)
  show ?thesis using h invalid_value_no_context [OF h, of engine0] by blast
qed

text \<open>
  C4 as stated fails on a default-constructed Value: the exception raised is not
  \<open>invalid_context\<close> and its message is not "invalid context".
\<close>

theorem invalid_value_counterexample:
  "is_null value_default = Inl (value_exception_msg ''no context'')
   \<and> is_null value_default \<noteq> Inl invalid_context
   \<and> what (value_exception_msg ''no context'') \<noteq> what invalid_context"
  by (simp add: is_null_def validate_def valid_def value_default_def throw_value_exception_def)

subsection \<open>Calling a global function\<close>

text \<open>
  C9. On a valid Context, \<open>call_global(name, a1, ..., an)\<close> calls the global property
  \<open>name\<close> through the engine with the receiver \<open>undefined\<close> and with \<open>n + 1\<close> arguments:
  \<open>undefined\<close> first, then the marshalled \<open>a1 .. an\<close>.
\<close>

theorem call_global_leading_undefined:
  assumes "context_valid m" and "c_ctx m = Some ctx"
  shows "call_global E JS_Call name a m =
      call_common_args_finish E ctx
        (JS_Call (JS_GetPropertyStr E (JS_GetGlobalObject E) name) JS_UNDEFINED
           (JS_UNDEFINED # map new_jsvalue a) (m\<lparr>c_clevel := c_clevel m + 1\<rparr>))
    \<and> length (JS_UNDEFINED # map new_jsvalue a) = length a + 1"
  using assms
  by (simp add: call_global_def context_validate_def get_global_object_def get_property_def
      value_of_def value_call_def call_common_def call_common_args_def undefined_value_def
      valid_def JS_DupValue_def)

theorem call_global_leading_undefined_witness:
  "context_valid machine0 \<and> c_ctx machine0 = Some 0
   \<and> call_global engine0
        (\<lambda>f t a m. (Inr (JS_Bool (t = JS_UNDEFINED \<and> a = [JS_UNDEFINED, JS_NewInt32 5])), m))
        ''main'' [AInt32 5] machine0 =
      (Inr (value_of 0 (JS_Bool True) False), machine0)"
proof -
  have a: "context_valid machine0" by (simp add: context_valid_def machine0_def)
  have b: "c_ctx machine0 = Some 0" by (simp add: machine0_def)
  show ?thesis
    using a b call_global_leading_undefined [OF a b, of engine0
        "\<lambda>f t a m. (Inr (JS_Bool (t = JS_UNDEFINED \<and> a = [JS_UNDEFINED, JS_NewInt32 5])), m)"
        "''main''" "[AInt32 5]"]
    by (simp add: call_common_args_finish_def check_throw_def value_of_def
        handle_pending_exception_def validate_def valid_def pop_exception_def
        JS_IsException_def call_level_exit_def machine0_def)
qed

subsection \<open>Constructing a native-backed object\<close>

text \<open>
  C8 (as the code has it). On a valid Context with the class registered: when the
  constructor call returns an object that is not an Error and no exception token is
  pending, \<open>make_object\<close> returns it and the out parameter receives the payload of the
  object's opaque slot. When the constructor call fails (the exception marker, or a
  pending token of a native exception), \<open>make_object\<close> raises: the pending token itself,
  or what \<open>do_throw\<close> makes of the engine's pending exception; no Value is returned and
  the out parameter keeps its content. The out parameter is cleared only when the
  constructor call returns an Error object as its result.
\<close>

theorem make_object_outcomes:
  assumes "context_valid m" and "c_ctx m = Some ctx" and "c_classes m cid = Some (ctor, proto)"
    and "JS_CallConstructor ctor (map v_val a) m = (Inr r, m1)"
  shows "(c_excpt m1 = None \<and> r \<noteq> JS_EXCEPTION \<and> \<not> JS_IsError r \<longrightarrow>
        make_object E JS_CallConstructor cid a inst m =
          ((Inr (value_of ctx r False), JS_GetOpaque E r cid), m1))
    \<and> (c_excpt m1 = None \<and> r = JS_EXCEPTION \<longrightarrow>
        make_object E JS_CallConstructor cid a inst m =
          ((Inl (do_throw E (value_of ctx JS_EXCEPTION False)
                   (value_of ctx (current_exception m1) False)
                   (m1\<lparr>current_exception := JS_NULL\<rparr>)), inst),
           m1\<lparr>current_exception := JS_NULL\<rparr>))
    \<and> (\<forall>e. c_excpt m1 = Some e \<longrightarrow>
        make_object E JS_CallConstructor cid a inst m = ((Inl e, inst), m1\<lparr>c_excpt := None\<rparr>))
    \<and> (c_excpt m1 = None \<and> JS_IsError r \<longrightarrow>
        make_object E JS_CallConstructor cid a inst m = ((Inr (value_of ctx r False), None), m1))"
proof -
  have pre: "make_object E JS_CallConstructor cid a inst m =
      (let ret = value_of ctx r False in
       case check_throw E ret True m1 of
         (Inl e, m2) \<Rightarrow> ((Inl e, inst), m2)
       | (Inr u, m2) \<Rightarrow>
           if valid ret \<and> \<not> JS_IsError (v_val ret)
           then ((Inr ret, JS_GetOpaque E (v_val ret) cid), m2)
           else ((Inr ret, None), m2))"
    using assms by (simp add: make_object_def context_validate_def get_class_info_def)
  have ok: "c_excpt m1 = None \<and> r \<noteq> JS_EXCEPTION \<and> \<not> JS_IsError r \<longrightarrow>
        make_object E JS_CallConstructor cid a inst m =
          ((Inr (value_of ctx r False), JS_GetOpaque E r cid), m1)"
    unfolding pre
    by (simp add: value_of_def check_throw_def handle_pending_exception_def validate_def
        valid_def pop_exception_def JS_IsException_def)
  have fail: "c_excpt m1 = None \<and> r = JS_EXCEPTION \<longrightarrow>
        make_object E JS_CallConstructor cid a inst m =
          ((Inl (do_throw E (value_of ctx JS_EXCEPTION False)
                   (value_of ctx (current_exception m1) False)
                   (m1\<lparr>current_exception := JS_NULL\<rparr>)), inst),
           m1\<lparr>current_exception := JS_NULL\<rparr>)"
    unfolding pre
    by (simp add: value_of_def check_throw_def handle_pending_exception_def validate_def
        valid_def pop_exception_def JS_IsException_def JS_GetException_def excpt_update_same)
  have tok: "\<forall>e. c_excpt m1 = Some e \<longrightarrow>
        make_object E JS_CallConstructor cid a inst m = ((Inl e, inst), m1\<lparr>c_excpt := None\<rparr>)"
    unfolding pre
    by (simp add: value_of_def check_throw_def handle_pending_exception_def validate_def
        valid_def pop_exception_def)
  have err: "c_excpt m1 = None \<and> JS_IsError r \<longrightarrow>
        make_object E JS_CallConstructor cid a inst m = ((Inr (value_of ctx r False), None), m1)"
  proof
    assume h: "c_excpt m1 = None \<and> JS_IsError r"
    then have ne: "r \<noteq> JS_EXCEPTION" by auto
    show "make_object E JS_CallConstructor cid a inst m = ((Inr (value_of ctx r False), None), m1)"
      unfolding pre using h ne
      by (simp add: value_of_def check_throw_def handle_pending_exception_def validate_def
          valid_def pop_exception_def JS_IsException_def excpt_update_same)
  qed
  show ?thesis using ok fail tok err by blast
qed

theorem make_object_outcomes_witness:
  "context_valid machine1 \<and> c_ctx machine1 = Some 0
   \<and> c_classes machine1 3 = Some (JS_Object 10, JS_Object 11)
   \<and> make_object (engine0\<lparr>JS_GetOpaque := (\<lambda>v c. Some 42)\<rparr>)
        (\<lambda>c a m. (Inr (JS_Object 12), m)) 3 [] None machine1 =
       ((Inr (value_of 0 (JS_Object 12) False), Some 42), machine1)"
proof -
  have a: "context_valid machine1" by (simp add: context_valid_def machine1_def machine0_def)
  have b: "c_ctx machine1 = Some 0" by (simp add: machine1_def machine0_def)
  have c: "c_classes machine1 3 = Some (JS_Object 10, JS_Object 11)"
    by (simp add: machine1_def machine0_def)
  have d: "(\<lambda>c a m. (Inr (JS_Object 12), m)) (JS_Object 10) (map v_val []) machine1 =
      (Inr (JS_Object 12), machine1)" by simp
  have e: "c_excpt machine1 = None" by (simp add: machine1_def machine0_def)
  show ?thesis
    using a b c e make_object_outcomes
        [where JS_CallConstructor = "\<lambda>c a m. (Inr (JS_Object 12), m)"
           and E = "engine0\<lparr>JS_GetOpaque := (\<lambda>v c. Some 42)\<rparr>" and inst = None
           and a = "[]" and r = "JS_Object 12" and ?m1.0 = machine1, OF a b c d]
    by simp
qed

text \<open>
  C8 as stated fails when construction throws: the constructor call returns the exception
  marker with the thrown string pending, \<open>make_object\<close> raises \<open>value_exception\<close>, returns
  no Value, and the out parameter still holds what it held before the call.
\<close>

theorem make_object_counterexample:
  "make_object engine0 throwing_constructor 3 [] (Some 7) machine1 =
     ((Inl (value_exception (value_of 0 (JS_NewString ''the exception'') False)), Some 7), machine1)"
  by (simp add: make_object_def context_validate_def context_valid_def get_class_info_def
      machine1_def machine0_def JS_Throw_def value_of_def check_throw_def
      handle_pending_exception_def validate_def valid_def pop_exception_def
      JS_IsException_def JS_GetException_def do_throw_def throwing_constructor_def
      handle_closure_expand_def steal_def)

subsection \<open>Destruction of Contexts and of the Runtime\<close>

lemma value_abandon_ctx:
  "v_ctx (value_at (value_abandon b s) v) = (if b = v then None else v_ctx (value_at s v))"
  by (simp add: value_abandon_def value_at_def upd_value_def unlink_value_def Let_def
      split: option.splits)

lemma fold_value_abandon_ctx:
  "v_ctx (value_at (fold value_abandon xs s) v) =
     (if v \<in> set xs then None else v_ctx (value_at s v))"
  by (induction xs arbitrary: s) (simp_all add: value_abandon_ctx)

lemma context_delete_values:
  "s_values (context_delete a s) = s_values (fold value_abandon (c_values (context_at s a)) s)"
  by (simp add: context_delete_def context_untrack_def upd_context_def unlink_context_def
      Let_def split: option.splits)

text \<open>
  What holds of C3: the destructor of a Context abandons every Value linked into its
  \<open>values_\<close> list, so each of them is invalid afterwards.
\<close>

lemma context_delete_invalidates:
  assumes "v \<in> set (c_values (context_at s a))"
  shows "\<not> value_valid_at (context_delete a s) v"
proof -
  have "value_at (context_delete a s) v =
      value_at (fold value_abandon (c_values (context_at s a)) s) v"
    by (simp add: value_at_def context_delete_values)
  then show ?thesis using assms
    by (simp add: value_valid_at_def valid_def fold_value_abandon_ctx)
qed

lemma context_abandon_values: "s_values (context_abandon a s) = s_values s"
  by (simp add: context_abandon_def upd_context_def unlink_context_def Let_def
      split: option.splits)

lemma fold_context_abandon_values: "s_values (fold context_abandon xs s) = s_values s"
  by (induction xs arbitrary: s) (simp_all add: context_abandon_values)

text \<open>
  What fails of C3, in general: the destructor of the Runtime abandons its Contexts, and
  \<open>context::abandon\<close> touches no Value, so every Value is as valid afterwards as before.
\<close>

lemma runtime_delete_keeps_values: "value_valid_at (runtime_delete s) v = value_valid_at s v"
  by (simp add: value_valid_at_def value_at_def runtime_delete_def fold_context_abandon_values)

lemma store_with_context_eq:
  "store_with_context = \<lparr>s_values = Map.empty,
     s_contexts = [1 \<mapsto> context_default\<lparr>c_ctx := Some 0, c_owner := Some 0\<rparr>],
     s_runtime = \<lparr>r_contexts = [1], weak_object_refs = Map.empty\<rparr>,
     s_opaque = [0 \<mapsto> 1], s_next_ctx = 1, s_rt_opaque = True\<rparr>"
  by (simp add: store_with_context_def runtime_new_def context_new_default_def new_context_def
      context_new_def context_move_assign_def context_at_def upd_context_def
      context_track_from_def context_untrack_def unlink_context_def context_delete_def
      context_default_def Let_def fun_upd_twist)

text \<open>
  C3 at the failing input. The Value at address 10 is valid and linked into the Context at
  address 1, which the Runtime tracks. After the Runtime's destructor the Context is
  invalid and the Value is still valid. (The destructor of the Context would have
  invalidated it; a Value that was move-assigned into a default-constructed Value is not
  linked and stays valid even then.)
\<close>

theorem runtime_delete_leaves_value_valid:
  "value_valid_at store_with_value 10
   \<and> v_owner (value_at store_with_value 10) = Some 1
   \<and> c_values (context_at store_with_value 1) = [10]
   \<and> r_contexts (s_runtime store_with_value) = [1]
   \<and> context_valid_at store_with_value 1
   \<and> \<not> context_valid_at (runtime_delete store_with_value) 1
   \<and> value_valid_at (runtime_delete store_with_value) 10
   \<and> \<not> value_valid_at (context_delete 1 store_with_value) 10
   \<and> value_valid_at store_with_assigned_value 10
   \<and> value_valid_at (context_delete 1 store_with_assigned_value) 10"
  by (simp add: store_with_value_def store_with_assigned_value_def store_with_context_eq
      value_new_def value_new_default_def value_new_move_def value_move_assign_def
      value_delete_def value_track_def value_track_from_def value_untrack_def value_abandon_def
      value_at_def upd_value_def unlink_value_def value_valid_at_def valid_def
      context_at_def upd_context_def context_valid_at_def context_valid_def
      context_untrack_def unlink_context_def context_delete_def context_abandon_def
      runtime_delete_def context_default_def Let_def)

subsection \<open>Identity of the wrappers of shared instances\<close>





text \<open>
  The entry of an instance lasts as long as its wrapper: the finalizer's
  \<open>unref_inst_value\<close> takes away the one reference \<open>ref_inst_value\<close> counted when the
  wrapper was made, and the entry is erased.
\<close>

lemma unref_erases_single_entry:
  assumes "weak_object_refs r inst = None"
  shows "weak_object_refs (unref_inst_value inst (ref_inst_value inst w r)) inst = None"
  using assms by (simp add: unref_inst_value_def ref_inst_value_def)



end
